theory Spec2Isabelle
  imports Main
begin

section \<open>Python strings\<close>

text \<open>
  A Python \<open>str\<close> is modelled as a \<open>string\<close>; the characters are the code points below
  256. \<open>isspace\<close> lists the code points of that range for which \<open>str.isspace\<close> holds, which
  are the ones \<open>str.strip()\<close> removes at both ends.
\<close>

definition isspace :: "char \<Rightarrow> bool" where
  "isspace c =
     (let n = (of_char c :: nat)
      in (9 \<le> n \<and> n \<le> 13) \<or> (28 \<le> n \<and> n \<le> 32) \<or> n = 133 \<or> n = 160)"

definition strip :: "string \<Rightarrow> string" where
  "strip s = rev (dropWhile isspace (rev (dropWhile isspace s)))"

definition startswith :: "string \<Rightarrow> string \<Rightarrow> bool" where
  "startswith s p = (take (length p) s = p)"

definition endswith :: "string \<Rightarrow> string \<Rightarrow> bool" where
  "endswith s p = (length p \<le> length s \<and> drop (length s - length p) s = p)"

text \<open>\<open>contains p s\<close> is Python's \<open>p in s\<close> on strings.\<close>

fun contains :: "string \<Rightarrow> string \<Rightarrow> bool" where
  "contains p [] = (p = [])"
| "contains p (c # cs) = (startswith (c # cs) p \<or> contains p cs)"

text \<open>\<open>s.replace("'", "'\\''")\<close>: every single quote becomes the four characters \<open>'\''\<close>.\<close>

definition replace_quote :: "string \<Rightarrow> string" where
  "replace_quote s =
     concat (map (\<lambda>c. if c = CHR 0x27 then [CHR 0x27, CHR 0x5C, CHR 0x27, CHR 0x27] else [c]) s)"

text \<open>
  The line boundaries of \<open>str.splitlines\<close> below code point 256; \<open>first_line s\<close> is
  \<open>s.splitlines()[0]\<close> for a non-empty \<open>s\<close> that starts with no boundary (the source
  takes it of a stripped, non-empty string only).
\<close>

definition is_linebreak :: "char \<Rightarrow> bool" where
  "is_linebreak c =
     (let n = (of_char c :: nat)
      in (10 \<le> n \<and> n \<le> 13) \<or> (28 \<le> n \<and> n \<le> 30) \<or> n = 133)"

definition first_line :: "string \<Rightarrow> string" where
  "first_line s = takeWhile (\<lambda>c. \<not> is_linebreak c) s"

text \<open>\<open>Path(p).name\<close> for a path that does not end in a slash: the text after the last slash.\<close>

definition path_name :: "string \<Rightarrow> string" where
  "path_name p = rev (takeWhile (\<lambda>c. c \<noteq> CHR ''/'') (rev p))"

section \<open>Configuration and pod status\<close>

text \<open>The fields of \<open>RunPodConfig\<close> that the manager reads.\<close>

record RunPodConfig =
  pod_id :: string
  api_key :: "string option"
  ssh_host :: "string option"
  ssh_port :: "int option"
  ssh_user :: string
  ssh_key_path :: string

record PodStatus =
  ps_pod_id :: string
  status :: string
  ps_ssh_host :: "string option"
  ps_ssh_port :: "int option"
  jupyter_url :: "string option"
  is_running :: bool

text \<open>Python truth values of an optional string and an optional integer, and \<open>a or b\<close>.\<close>

definition truthy_str :: "string option \<Rightarrow> bool" where
  "truthy_str a = (case a of None \<Rightarrow> False | Some s \<Rightarrow> s \<noteq> [])"

definition truthy_int :: "int option \<Rightarrow> bool" where
  "truthy_int a = (case a of None \<Rightarrow> False | Some n \<Rightarrow> n \<noteq> 0)"

definition or_str :: "string option \<Rightarrow> string option \<Rightarrow> string option" where
  "or_str a b = (if truthy_str a then a else b)"

definition or_int :: "int option \<Rightarrow> int option \<Rightarrow> int option" where
  "or_int a b = (if truthy_int a then a else b)"

section \<open>The world outside the process\<close>

text \<open>
  A library call that may raise either raises (with the text of the exception) or returns.
\<close>

datatype 'a attempt = Raises string | Returns 'a

text \<open>
  What one secure-shell session does, step by step as \<open>execute_ssh_command\<close> drives it:
  the connect, the \<open>exec_command\<close>, the two reads with their UTF-8 decoding, and the read of
  the exit status.
\<close>

record ssh_run =
  connect_attempt :: "unit attempt"
  exec_attempt :: "unit attempt"
  stdout_read :: "string attempt"
  stderr_read :: "string attempt"
  recv_exit_status :: "int attempt"

text \<open>
  A reply of the management API: the request raises, or it returns a status code and,
  when the body is well formed and holds the object asked for, that object.
\<close>

datatype 'a response = Request_raises string | Response nat "'a option"

text \<open>
  The pod object of the API: its \<open>runtime\<close> is absent (null) or a descriptor with ports;
  a descriptor is a non-empty dictionary, so it is true in a condition.
\<close>

record pod_info =
  info_id :: string
  runtime :: "(nat \<times> nat \<times> string) list option"

text \<open>The operations of the manager and of the local machine, in the order they are called.\<close>

datatype event =
    Test_ssh
  | Get_pod_info
  | Start_pod
  | Stop_pod
  | Sleep int
  | Ssh_exec string
  | Upload_file string string
  | Download_file string string
  | Local_archive string
  | Local_mkdir string
  | Local_extract string string
  | Local_unlink string

text \<open>
  The state threaded through the manager. The outcomes of the outside world are scripted:
  each list is read from its head by the operation that meets the world, and a list that
  has run out answers with a failure. \<open>now\<close> is \<open>time.time()\<close> in seconds; it advances by
  sleeping only. \<open>trace\<close> records every operation called.
\<close>

record world =
  probes :: "bool list"
  pod_replies :: "pod_info response list"
  start_replies :: "unit response list"
  stop_replies :: "unit response list"
  runs :: "ssh_run list"
  scp_results :: "bool list"
  local_results :: "bool list"
  now :: int
  trace :: "event list"
  current_pod :: "PodStatus option"

definition log :: "event \<Rightarrow> world \<Rightarrow> world" where
  "log e w = w\<lparr>trace := trace w @ [e]\<rparr>"

definition sleep :: "int \<Rightarrow> world \<Rightarrow> world" where
  "sleep d w = log (Sleep d) (w\<lparr>now := now w + d\<rparr>)"

definition unreachable :: ssh_run where
  "unreachable =
     \<lparr>connect_attempt = Raises ''Unable to connect'', exec_attempt = Returns (),
      stdout_read = Returns [], stderr_read = Returns [], recv_exit_status = Returns 0\<rparr>"

section \<open>Connection Probe and Command Channel (manager.py)\<close>

text \<open>
  \<open>test_ssh_connection\<close>: without a host or a port it returns False and connects to
  nothing; otherwise the connect either succeeds or raises, and the exception is caught.
  The user and the key path only feed the connect and are left out.
\<close>

definition test_ssh_connection ::
  "RunPodConfig \<Rightarrow> string option \<Rightarrow> int option \<Rightarrow> world \<Rightarrow> bool \<times> world" where
  "test_ssh_connection cfg host port w0 =
     (let w = log Test_ssh w0;
          host = or_str host (ssh_host cfg);
          port = or_int port (ssh_port cfg)
      in if \<not> truthy_str host \<or> \<not> truthy_int port then (False, w)
         else (case probes w of
                 [] \<Rightarrow> (False, w)
               | b # bs \<Rightarrow> (b, w\<lparr>probes := bs\<rparr>)))"

text \<open>
  The body of \<open>execute_ssh_command\<close> once a session is attempted. Any exception up to and
  including the reads is caught by the outer handler and gives \<open>(False, "", str(e))\<close>; an
  exception of the status read is caught by the inner handler, which sets the status to 0.
\<close>

definition exit_status_of :: "int attempt \<Rightarrow> int" where
  "exit_status_of a = (case a of Raises e \<Rightarrow> 0 | Returns n \<Rightarrow> n)"

definition run_session :: "ssh_run \<Rightarrow> bool \<times> string \<times> string" where
  "run_session r =
     (case connect_attempt r of
        Raises e \<Rightarrow> (False, [], e)
      | Returns u \<Rightarrow>
     (case exec_attempt r of
        Raises e \<Rightarrow> (False, [], e)
      | Returns u \<Rightarrow>
     (case stdout_read r of
        Raises e \<Rightarrow> (False, [], e)
      | Returns stdout_str \<Rightarrow>
     (case stderr_read r of
        Raises e \<Rightarrow> (False, [], e)
      | Returns stderr_str \<Rightarrow>
          (let exit_status = exit_status_of (recv_exit_status r)
           in (exit_status = 0, stdout_str, stderr_str))))))"

definition execute_ssh_command ::
  "RunPodConfig \<Rightarrow> string \<Rightarrow> string option \<Rightarrow> int option \<Rightarrow> world
     \<Rightarrow> (bool \<times> string \<times> string) \<times> world" where
  "execute_ssh_command cfg command host port w0 =
     (let w = log (Ssh_exec command) w0;
          host = or_str host (ssh_host cfg);
          port = or_int port (ssh_port cfg)
      in if \<not> truthy_str host \<or> \<not> truthy_int port
         then ((False, [], ''No SSH connection details available''), w)
         else (case runs w of
                 [] \<Rightarrow> (run_session unreachable, w)
               | r # rs \<Rightarrow> (run_session r, w\<lparr>runs := rs\<rparr>)))"

section \<open>Control-Plane Client (manager.py)\<close>

text \<open>\<open>pod_id or self.config.pod_id\<close>.\<close>

definition or_pod_id :: "string option \<Rightarrow> string \<Rightarrow> string" where
  "or_pod_id a b = (case a of None \<Rightarrow> b | Some s \<Rightarrow> if s \<noteq> [] then s else b)"

text \<open>
  \<open>get_pod_info\<close>: without an API key it sends nothing and returns the minimal pod object
  \<open>{"id": pod_id, "runtime": {"ports": []}}\<close>. With a key, a reply with status 200 and a pod in
  its body gives that pod; every other reply, and every exception, gives None.
\<close>

definition get_pod_info ::
  "RunPodConfig \<Rightarrow> string option \<Rightarrow> world \<Rightarrow> pod_info option \<times> world" where
  "get_pod_info cfg pid w0 =
     (let w = log Get_pod_info w0;
          pid = or_pod_id pid (pod_id cfg)
      in if \<not> truthy_str (api_key cfg)
         then (Some \<lparr>info_id = pid, runtime = Some []\<rparr>, w)
         else (case pod_replies w of
                 [] \<Rightarrow> (None, w)
               | r # rs \<Rightarrow>
                   ((case r of
                       Request_raises e \<Rightarrow> None
                     | Response code body \<Rightarrow> if code = 200 then body else None),
                    w\<lparr>pod_replies := rs\<rparr>)))"

text \<open>
  \<open>start_pod\<close> and \<open>stop_pod\<close>: without an API key they send nothing and return False; with
  a key they succeed on status 200 with the mutation's object in the body, and fail otherwise.
\<close>

definition start_pod :: "RunPodConfig \<Rightarrow> string option \<Rightarrow> world \<Rightarrow> bool \<times> world" where
  "start_pod cfg pid w0 =
     (let w = log Start_pod w0
      in if \<not> truthy_str (api_key cfg) then (False, w)
         else (case start_replies w of
                 [] \<Rightarrow> (False, w)
               | r # rs \<Rightarrow>
                   ((case r of
                       Request_raises e \<Rightarrow> False
                     | Response code body \<Rightarrow> code = 200 \<and> body \<noteq> None),
                    w\<lparr>start_replies := rs\<rparr>)))"

definition stop_pod :: "RunPodConfig \<Rightarrow> string option \<Rightarrow> world \<Rightarrow> bool \<times> world" where
  "stop_pod cfg pid w0 =
     (let w = log Stop_pod w0
      in if \<not> truthy_str (api_key cfg) then (False, w)
         else (case stop_replies w of
                 [] \<Rightarrow> (False, w)
               | r # rs \<Rightarrow>
                   ((case r of
                       Request_raises e \<Rightarrow> False
                     | Response code body \<Rightarrow> code = 200 \<and> body \<noteq> None),
                    w\<lparr>stop_replies := rs\<rparr>)))"

section \<open>Lifecycle Controller (manager.py, utils.py)\<close>

definition running_status :: "RunPodConfig \<Rightarrow> string \<Rightarrow> PodStatus" where
  "running_status cfg pid =
     \<lparr>ps_pod_id = pid, status = ''RUNNING'', ps_ssh_host = ssh_host cfg,
      ps_ssh_port = ssh_port cfg, jupyter_url = None, is_running = True\<rparr>"

text \<open>
  The polling loop of \<open>wait_for_pod_ready\<close>. Every turn that does not return sleeps 10
  seconds, so the loop ends once the budget \<open>timeout\<close> has passed since \<open>start_time\<close>.
\<close>

function poll_ready :: "RunPodConfig \<Rightarrow> string \<Rightarrow> int \<Rightarrow> int \<Rightarrow> world \<Rightarrow> bool \<times> world" where
  "poll_ready cfg pid start_time timeout w =
     (if now w - start_time < timeout then
        (case get_pod_info cfg (Some pid) w of
           (None, w1) \<Rightarrow> poll_ready cfg pid start_time timeout (sleep 10 w1)
         | (Some info, w1) \<Rightarrow>
             (case runtime info of
                None \<Rightarrow> poll_ready cfg pid start_time timeout (sleep 10 w1)
              | Some rt \<Rightarrow>
                  if truthy_str (ssh_host cfg) \<and> truthy_int (ssh_port cfg) then
                    (case test_ssh_connection cfg (ssh_host cfg) (ssh_port cfg) w1 of
                       (True, w2) \<Rightarrow> (True, w2\<lparr>current_pod := Some (running_status cfg pid)\<rparr>)
                     | (False, w2) \<Rightarrow> poll_ready cfg pid start_time timeout (sleep 10 w2))
                  else poll_ready cfg pid start_time timeout (sleep 10 w1)))
      else (False, w))"
  by pat_completeness auto

lemma now_get_pod_info: "get_pod_info cfg pid w = (r, w') \<Longrightarrow> now w' = now w"
  by (auto simp: get_pod_info_def log_def Let_def split: if_splits list.splits)

lemma now_test_ssh_connection: "test_ssh_connection cfg h p w = (r, w') \<Longrightarrow> now w' = now w"
  by (auto simp: test_ssh_connection_def log_def Let_def split: if_splits list.splits)

lemma now_sleep: "now (sleep d w) = now w + d"
  by (simp add: sleep_def log_def)

termination poll_ready
proof (relation "measure (\<lambda>(cfg, pid, start_time, timeout, w). nat (start_time + timeout - now w))")
  show "wf (measure (\<lambda>(cfg, pid, start_time, timeout, w). nat (start_time + timeout - now w)))"
    by simp
qed (auto simp: now_sleep dest!: now_get_pod_info [OF sym] now_test_ssh_connection [OF sym])

definition wait_for_pod_ready ::
  "RunPodConfig \<Rightarrow> string option \<Rightarrow> int \<Rightarrow> world \<Rightarrow> bool \<times> world" where
  "wait_for_pod_ready cfg pid timeout w =
     (let pid = or_pod_id pid (pod_id cfg);
          start_time = now w
      in (case test_ssh_connection cfg None None w of
            (True, w1) \<Rightarrow> (True, w1\<lparr>current_pod := Some (running_status cfg pid)\<rparr>)
          | (False, w1) \<Rightarrow> poll_ready cfg pid start_time timeout w1))"

text \<open>
  \<open>ensure_pod_running\<close>: on the fast path the answer of \<open>wait_for_pod_ready\<close> is dropped and
  True is returned.
\<close>

definition ensure_pod_running :: "RunPodConfig \<Rightarrow> bool \<Rightarrow> world \<Rightarrow> bool \<times> world" where
  "ensure_pod_running cfg auto_start w =
     (case test_ssh_connection cfg None None w of
        (True, w1) \<Rightarrow> (True, snd (wait_for_pod_ready cfg None 30 w1))
      | (False, w1) \<Rightarrow>
          if auto_start then
            (case start_pod cfg None w1 of
               (True, w2) \<Rightarrow> wait_for_pod_ready cfg None 300 w2
             | (False, w2) \<Rightarrow> (False, w2))
          else (False, w1))"

section \<open>File transfer (manager.py)\<close>

text \<open>
  \<open>upload_file\<close> and \<open>download_file\<close> run one \<open>scp\<close>; a return code other than 0 and an
  exception of the subprocess both give False.
\<close>

definition upload_file ::
  "RunPodConfig \<Rightarrow> string \<Rightarrow> string \<Rightarrow> string option \<Rightarrow> int option \<Rightarrow> world \<Rightarrow> bool \<times> world" where
  "upload_file cfg local_path remote_path host port w0 =
     (let w = log (Upload_file local_path remote_path) w0;
          host = or_str host (ssh_host cfg);
          port = or_int port (ssh_port cfg)
      in if \<not> truthy_str host \<or> \<not> truthy_int port then (False, w)
         else (case scp_results w of
                 [] \<Rightarrow> (False, w)
               | b # bs \<Rightarrow> (b, w\<lparr>scp_results := bs\<rparr>)))"

definition download_file ::
  "RunPodConfig \<Rightarrow> string \<Rightarrow> string \<Rightarrow> string option \<Rightarrow> int option \<Rightarrow> world \<Rightarrow> bool \<times> world" where
  "download_file cfg remote_path local_path host port w0 =
     (let w = log (Download_file remote_path local_path) w0;
          host = or_str host (ssh_host cfg);
          port = or_int port (ssh_port cfg)
      in if \<not> truthy_str host \<or> \<not> truthy_int port then (False, w)
         else (case scp_results w of
                 [] \<Rightarrow> (False, w)
               | b # bs \<Rightarrow> (b, w\<lparr>scp_results := bs\<rparr>)))"

text \<open>
  An operation on the local file system: it is recorded, and the script says whether it
  succeeds (True) or raises (False).
\<close>

definition local_op :: "event \<Rightarrow> world \<Rightarrow> bool \<times> world" where
  "local_op e w0 =
     (let w = log e w0
      in (case local_results w of
            [] \<Rightarrow> (False, w)
          | b # bs \<Rightarrow> (b, w\<lparr>local_results := bs\<rparr>)))"

section \<open>Artifact Transfer Pipeline (utils.py)\<close>

definition sq :: string where
  "sq = [CHR 0x27]"

definition dq :: string where
  "dq = [CHR 0x22]"

text \<open>
  The filter \<open>_exclude\<close> of the upload archive, on the member's name: None drops the member.
\<close>

definition exclude :: "string \<Rightarrow> string option" where
  "exclude name =
     (if list_ex (\<lambda>token. contains token name)
           [''.git/'', ''node_modules/'', ''__pycache__/'', ''.mypy_cache/'', ''.pytest_cache/'']
      then None
      else if endswith name ''.pyc'' \<or> endswith name ''.pyo'' then None
      else Some name)"

text \<open>
  \<open>upload_project_files\<close>. \<open>archive_name\<close> is the name of the temporary file
  (\<open>tmp.name\<close>). The existence test of the local path and the building of the archive are
  one local operation, which fails when the path is missing or when anything raises; the
  handler around the whole body then returns False. The removal of the local archive
  swallows its own errors.
\<close>

definition upload_project_files :: "RunPodConfig \<Rightarrow> string \<Rightarrow> string \<Rightarrow> world \<Rightarrow> bool \<times> world" where
  "upload_project_files cfg archive_name local_path w =
     (case ensure_pod_running cfg False w of
        (False, w1) \<Rightarrow> (False, w1)
      | (True, w1) \<Rightarrow>
     (case local_op (Local_archive archive_name) w1 of
        (False, w2) \<Rightarrow> (False, w2)
      | (True, w2) \<Rightarrow>
     (let remote_archive = ''/workspace/'' @ path_name archive_name
      in (case upload_file cfg archive_name remote_archive None None w2 of
            (success, w3) \<Rightarrow>
         (let w4 = snd (local_op (Local_unlink archive_name) w3)
          in if \<not> success then (False, w4)
             else
               (let cmd = ''cd /workspace && tar -xzf '' @ sq @ remote_archive @ sq
                          @ '' && rm -f '' @ sq @ remote_archive @ sq
                in (case execute_ssh_command cfg cmd None None w4 of
                      ((ok, out, err), w5) \<Rightarrow> (ok, w5))))))))"

definition check_cmd :: "string \<Rightarrow> string" where
  "check_cmd remote_dir_quoted =
     ''test -d '' @ sq @ remote_dir_quoted @ sq @ '' && echo OK || echo MISSING''"

definition parent_dir_cmd :: "string \<Rightarrow> string" where
  "parent_dir_cmd remote_dir_quoted =
     ''python3 -c '' @ sq @ ''import os,sys; p='' @ dq @ remote_dir_quoted @ dq
     @ ''; import pathlib; q=str(pathlib.Path(p).parent); print(q)'' @ sq"

definition remote_name_cmd :: "string \<Rightarrow> string" where
  "remote_name_cmd remote_dir_quoted =
     ''python3 -c '' @ sq @ ''import pathlib; print(pathlib.Path('' @ dq @ remote_dir_quoted @ dq
     @ '').name)'' @ sq"

definition tar_cmd :: "string \<Rightarrow> string \<Rightarrow> string \<Rightarrow> string" where
  "tar_cmd remote_parent remote_archive remote_name =
     ''tar -C '' @ sq @ remote_parent @ sq @ '' -czf '' @ sq @ remote_archive @ sq
     @ '' '' @ sq @ remote_name @ sq"

text \<open>
  \<open>download_and_extract_outputs\<close>. \<open>ts\<close> is the timestamp text that
  \<open>datetime.now().strftime\<close> gives. The result is \<open>Returns (Some dir)\<close> for the returned
  directory, \<open>Returns None\<close> for the return of None, and \<open>Raises\<close> when the creation of the
  local directory raises, which no handler catches. The extraction's exception is caught,
  and the local archive is unlinked in the \<open>finally\<close> block on both ways out.
\<close>

definition download_and_extract_outputs ::
  "RunPodConfig \<Rightarrow> string \<Rightarrow> string \<Rightarrow> string \<Rightarrow> string \<Rightarrow> world
     \<Rightarrow> string option attempt \<times> world" where
  "download_and_extract_outputs cfg ts remote_dir local_base_dir archive_name_prefix w =
     (case ensure_pod_running cfg False w of
        (False, w1) \<Rightarrow> (Returns None, w1)
      | (True, w1) \<Rightarrow>
     (let remote_dir = strip remote_dir;
          remote_dir_quoted = replace_quote remote_dir
      in (case execute_ssh_command cfg (check_cmd remote_dir_quoted) None None w1 of
            ((ok, out, err), w2) \<Rightarrow>
         if \<not> ok \<or> \<not> contains ''OK'' out then (Returns None, w2)
         else
     (let remote_archive = ''/workspace/'' @ archive_name_prefix @ ''_'' @ ts @ ''.tar.gz''
      in (case execute_ssh_command cfg (parent_dir_cmd remote_dir_quoted) None None w2 of
            ((ok, parent_stdout, err), w3) \<Rightarrow>
         if \<not> ok \<or> strip parent_stdout = [] then (Returns None, w3)
         else
     (let remote_parent = first_line (strip parent_stdout)
      in (case execute_ssh_command cfg (remote_name_cmd remote_dir_quoted) None None w3 of
            ((ok, name_stdout, err), w4) \<Rightarrow>
         if \<not> ok \<or> strip name_stdout = [] then (Returns None, w4)
         else
     (let remote_name = first_line (strip name_stdout)
      in (case execute_ssh_command cfg (tar_cmd remote_parent remote_archive remote_name)
                 None None w4 of
            ((ok, out, err), w5) \<Rightarrow>
         if \<not> ok then (Returns None, w5)
         else
     (let local_archive = path_name remote_archive
      in (case download_file cfg remote_archive local_archive None None w5 of
            (False, w6) \<Rightarrow> (Returns None, w6)
          | (True, w6) \<Rightarrow>
     (let target_dir = local_base_dir @ ''/'' @ ''batch_'' @ ts
      in (case local_op (Local_mkdir target_dir) w6 of
            (False, w7) \<Rightarrow> (Raises ''OSError'', w7)
          | (True, w7) \<Rightarrow>
     (case local_op (Local_extract local_archive target_dir) w7 of
        (extracted, w8) \<Rightarrow>
     (let w9 = snd (local_op (Local_unlink local_archive) w8)
      in if \<not> extracted then (Returns None, w9)
         else
           (case execute_ssh_command cfg (''rm -f '' @ remote_archive) None None w9 of
              (r, w10) \<Rightarrow> (Returns (Some target_dir), w10)))))))))))))))))"

text \<open>\<open>clear_remote_directory\<close>: the guard is on the stripped path.\<close>

definition clear_cmd :: "string \<Rightarrow> string" where
  "clear_cmd remote_dir =
     ''bash -lc '' @ sq @ ''set -e; mkdir -p '' @ replace_quote remote_dir
     @ ''; rm -rf '' @ replace_quote remote_dir @ ''/*'' @ sq"

definition clear_remote_directory :: "RunPodConfig \<Rightarrow> string \<Rightarrow> world \<Rightarrow> bool \<times> world" where
  "clear_remote_directory cfg remote_dir w =
     (case ensure_pod_running cfg False w of
        (False, w1) \<Rightarrow> (False, w1)
      | (True, w1) \<Rightarrow>
          (let remote_dir = strip remote_dir
           in if \<not> startswith remote_dir ''/workspace'' then (False, w1)
              else (case execute_ssh_command cfg (clear_cmd remote_dir) None None w1 of
                      ((ok, out, err), w2) \<Rightarrow> (ok, w2))))"

section \<open>Retention Manager (utils.py)\<close>

text \<open>
  An entry of the base directory as \<open>prune_local_batches\<close> sees it: its name, whether
  \<open>is_dir()\<close> holds, its modification time (only the order of the times is used), and
  whether the file system lets the process delete it.
\<close>

record dir_entry =
  entry_name :: string
  entry_is_dir :: bool
  st_mtime :: int
  removable :: bool

datatype node = File_node | Dir_node "dir_entry list"

type_synonym local_fs = "string \<Rightarrow> node option"

datatype fs_error = NotADirectoryError

text \<open>
  \<open>shutil.rmtree(path, ignore_errors)\<close> on an entry of the listing: a removable tree
  goes; one that cannot be removed stays, and the error is raised only when
  \<open>ignore_errors\<close> is False.
\<close>

definition rmtree :: "bool \<Rightarrow> dir_entry \<Rightarrow> dir_entry list \<Rightarrow> unit attempt \<times> dir_entry list" where
  "rmtree ignore_errors p es =
     (if removable p then (Returns (), filter (\<lambda>e. entry_name e \<noteq> entry_name p) es)
      else if ignore_errors then (Returns (), es)
      else (Raises ''OSError'', es))"

text \<open>The loop over \<open>to_remove\<close>, with the counter \<open>removed\<close>.\<close>

fun remove_loop :: "dir_entry list \<Rightarrow> nat \<Rightarrow> dir_entry list \<Rightarrow> nat \<times> dir_entry list" where
  "remove_loop [] removed es = (removed, es)"
| "remove_loop (p # ps) removed es =
     (case rmtree True p es of
        (Returns u, es') \<Rightarrow> remove_loop ps (removed + 1) es'
      | (Raises e, es') \<Rightarrow> remove_loop ps removed es')"

definition is_batch :: "dir_entry \<Rightarrow> bool" where
  "is_batch p = (entry_is_dir p \<and> startswith (entry_name p) ''batch_'')"

text \<open>
  \<open>prune_local_batches\<close>. The sort is stable and descending in the time, as
  \<open>sort(key, reverse=True)\<close> is. A base that is a file makes \<open>iterdir\<close> raise.
\<close>

definition prune_local_batches :: "local_fs \<Rightarrow> string \<Rightarrow> int \<Rightarrow> fs_error + nat \<times> local_fs" where
  "prune_local_batches fs local_base_dir keep =
     (case fs local_base_dir of
        None \<Rightarrow> Inr (0, fs)
      | Some File_node \<Rightarrow> Inl NotADirectoryError
      | Some (Dir_node es) \<Rightarrow>
          (let candidates = filter is_batch es;
               candidates = sort_key (\<lambda>p. - st_mtime p) candidates;
               to_remove = (if keep \<ge> 0 then drop (nat keep) candidates else [])
           in (case remove_loop to_remove 0 es of
                 (removed, es') \<Rightarrow> Inr (removed, fs(local_base_dir \<mapsto> Dir_node es')))))"

section \<open>Traces and example worlds\<close>

text \<open>
  The events that only look at the worker or wait: a probe, a describe, a sleep.
\<close>

definition observation :: "event \<Rightarrow> bool" where
  "observation e =
     (case e of Test_ssh \<Rightarrow> True | Get_pod_info \<Rightarrow> True | Sleep d \<Rightarrow> True | _ \<Rightarrow> False)"

definition same_scripts :: "world \<Rightarrow> world \<Rightarrow> bool" where
  "same_scripts w w' =
     (runs w' = runs w \<and> scp_results w' = scp_results w \<and> local_results w' = local_results w)"

text \<open>
  \<open>continues w w'\<close>: from \<open>w\<close> to \<open>w'\<close> the trace grew by observations only, and no
  command, copy or local operation was consumed.
\<close>

definition continues :: "world \<Rightarrow> world \<Rightarrow> bool" where
  "continues w w' =
     ((\<exists>evs. trace w' = trace w @ evs \<and> list_all observation evs) \<and> same_scripts w w')"

definition example_cfg :: RunPodConfig where
  "example_cfg =
     \<lparr>pod_id = ''pod0'', api_key = Some ''key'', ssh_host = Some ''10.0.0.1'',
      ssh_port = Some 22, ssh_user = ''root'', ssh_key_path = ''id_ed25519''\<rparr>"

definition idle_world :: world where
  "idle_world =
     \<lparr>probes = [], pod_replies = [], start_replies = [], stop_replies = [], runs = [],
      scp_results = [], local_results = [], now = 0, trace = [], current_pod = None\<rparr>"

text \<open>A session that connects, runs the command and reads both streams to their end.\<close>

definition completed :: "string \<Rightarrow> string \<Rightarrow> int attempt \<Rightarrow> ssh_run" where
  "completed out err st =
     \<lparr>connect_attempt = Returns (), exec_attempt = Returns (), stdout_read = Returns out,
      stderr_read = Returns err, recv_exit_status = st\<rparr>"


text \<open>
  A download in which the archive is made on the worker and the copy to the local
  machine then fails.
\<close>

definition lost_download_world :: world where
  "lost_download_world =
     idle_world\<lparr>probes := [True, True],
       runs := [completed ''OK\<newline>'' [] (Returns 0),
                completed ''/workspace/data\<newline>'' [] (Returns 0),
                completed ''outputs\<newline>'' [] (Returns 0),
                completed [] [] (Returns 0)],
       scp_results := [False]\<rparr>"

text \<open>An upload in which the archive reaches the worker and its extraction there fails.\<close>

definition failed_extract_world :: world where
  "failed_extract_world =
     idle_world\<lparr>probes := [True, True], local_results := [True, True], scp_results := [True],
       runs := [completed [] ''tar: Unexpected EOF in archive'' (Returns 2)]\<rparr>"

text \<open>A base directory with one batch that the file system does not let go.\<close>

definition stuck_batch :: dir_entry where
  "stuck_batch =
     \<lparr>entry_name = ''batch_20250101_120000'', entry_is_dir = True, st_mtime = 100,
      removable = False\<rparr>"

definition stuck_fs :: local_fs where
  "stuck_fs = [''out'' \<mapsto> Dir_node [stuck_batch]]"




section \<open>What the lifecycle calls leave untouched\<close>

lemma continues_refl: "continues w w"
  by (simp add: continues_def same_scripts_def)

lemma continues_trans: "continues a b \<Longrightarrow> continues b c \<Longrightarrow> continues a c"
  by (auto simp: continues_def same_scripts_def)

lemma continues_get_pod_info: "get_pod_info cfg pid w = (r, w') \<Longrightarrow> continues w w'"
  by (auto simp: get_pod_info_def log_def Let_def continues_def same_scripts_def observation_def
        split: if_splits list.splits)

lemma continues_test_ssh: "test_ssh_connection cfg h p w = (r, w') \<Longrightarrow> continues w w'"
  by (auto simp: test_ssh_connection_def log_def Let_def continues_def same_scripts_def
        observation_def split: if_splits list.splits)

lemma continues_sleep: "continues w (sleep d w)"
  by (simp add: sleep_def log_def continues_def same_scripts_def observation_def)

lemma continues_current_pod: "continues w (w\<lparr>current_pod := p\<rparr>)"
  by (simp add: continues_def same_scripts_def)

lemma continues_poll_ready: "continues w (snd (poll_ready cfg pid st to w))"
proof (induction cfg pid st to w rule: poll_ready.induct)
  case (1 cfg pid st to w)
  show ?case
  proof (cases "now w - st < to")
    case False
    then show ?thesis by (simp add: continues_refl)
  next
    case True
    obtain pi w1 where g: "get_pod_info cfg (Some pid) w = (pi, w1)"
      by (cases "get_pod_info cfg (Some pid) w")
    have e1: "continues w w1" using g by (rule continues_get_pod_info)
    have s1: "continues w (sleep 10 w1)" using e1 continues_sleep by (rule continues_trans)
    obtain ok w2 where t: "test_ssh_connection cfg (ssh_host cfg) (ssh_port cfg) w1 = (ok, w2)"
      by (cases "test_ssh_connection cfg (ssh_host cfg) (ssh_port cfg) w1")
    have e2: "continues w w2" using e1 continues_test_ssh [OF t] by (rule continues_trans)
    have s2: "continues w (sleep 10 w2)" using e2 continues_sleep by (rule continues_trans)
    have r2: "continues w (w2\<lparr>current_pod := Some (running_status cfg pid)\<rparr>)"
      using e2 continues_current_pod by (rule continues_trans)
    show ?thesis
      using True g t "1.IH" s1 s2 r2
      by (subst poll_ready.simps) (auto split: option.splits bool.splits intro: continues_trans)
  qed
qed

lemma continues_wait_for_pod_ready: "continues w (snd (wait_for_pod_ready cfg pid timeout w))"
proof -
  obtain ok w1 where t: "test_ssh_connection cfg None None w = (ok, w1)"
    by (cases "test_ssh_connection cfg None None w")
  have e1: "continues w w1" using t by (rule continues_test_ssh)
  show ?thesis
    using t e1 continues_poll_ready [of w1 cfg "or_pod_id pid (pod_id cfg)" "now w" timeout]
    by (auto simp: wait_for_pod_ready_def Let_def split: bool.splits
          intro: continues_trans continues_current_pod)
qed

lemma continues_ensure_pod_running: "continues w (snd (ensure_pod_running cfg False w))"
proof -
  obtain ok w1 where t: "test_ssh_connection cfg None None w = (ok, w1)"
    by (cases "test_ssh_connection cfg None None w")
  have e1: "continues w w1" using t by (rule continues_test_ssh)
  show ?thesis
    using t e1 continues_wait_for_pod_ready [of w1 cfg None 30]
    by (auto simp: ensure_pod_running_def split: bool.splits intro: continues_trans)
qed

lemma runs_ensure_pod_running: "runs (snd (ensure_pod_running cfg False w)) = runs w"
  using continues_ensure_pod_running [of w cfg]
  by (simp add: continues_def same_scripts_def)

lemma trace_execute_ssh_command:
  "trace (snd (execute_ssh_command cfg c host port w)) = trace w @ [Ssh_exec c]"
  by (auto simp: execute_ssh_command_def log_def Let_def split: list.splits)

section \<open>Command Channel: exit status\<close>






section \<open>Lifecycle Controller: the fast path\<close>

lemmas world_eval =
  ensure_pod_running_def wait_for_pod_ready_def test_ssh_connection_def get_pod_info_def
  sleep_def log_def or_pod_id_def truthy_str_def truthy_int_def or_str_def or_int_def
  example_cfg_def idle_world_def execute_ssh_command_def run_session_def exit_status_of_def
  completed_def download_file_def upload_file_def local_op_def Let_def






section \<open>Directory purge: the workspace guard\<close>

text \<open>
  Claim C4, as the code has it. For every path whose text without the white space at its
  two ends does not start with \<open>/workspace\<close>, \<open>clear_remote_directory\<close> returns False and
  runs no remote command: beyond the readiness check it does nothing.
\<close>

theorem clear_remote_directory_refuses_outside_workspace:
  assumes "\<not> startswith (strip remote_dir) ''/workspace''"
  shows "clear_remote_directory cfg remote_dir w = (False, snd (ensure_pod_running cfg False w))
         \<and> (\<exists>evs. trace (snd (clear_remote_directory cfg remote_dir w)) = trace w @ evs
                \<and> list_all observation evs \<and> (\<forall>c. Ssh_exec c \<notin> set evs))"
proof -
  have r: "clear_remote_directory cfg remote_dir w
           = (False, snd (ensure_pod_running cfg False w))"
    using assms by (auto simp: clear_remote_directory_def split: prod.splits bool.splits)
  obtain evs where e: "trace (snd (ensure_pod_running cfg False w)) = trace w @ evs"
      and o: "list_all observation evs"
    using continues_ensure_pod_running [of w cfg] by (auto simp: continues_def)
  have "\<forall>c. Ssh_exec c \<notin> set evs"
    using o by (auto simp: list_all_iff observation_def)
  then show ?thesis using r e o by auto
qed

theorem clear_remote_directory_refuses_witness:
  "\<not> startswith (strip ''/tmp/out'') ''/workspace''
   \<and> clear_remote_directory example_cfg ''/tmp/out''
        (idle_world\<lparr>probes := [True, True], runs := [completed [] [] (Returns 0)]\<rparr>)
     = (False, idle_world\<lparr>runs := [completed [] [] (Returns 0)],
                 trace := [Test_ssh, Test_ssh],
                 current_pod := Some (running_status example_cfg ''pod0'')\<rparr>)"
proof -
  have h: "\<not> startswith (strip ''/tmp/out'') ''/workspace''"
    by (simp add: strip_def isspace_def startswith_def)
  have e: "ensure_pod_running example_cfg False
             (idle_world\<lparr>probes := [True, True], runs := [completed [] [] (Returns 0)]\<rparr>)
           = (True, idle_world\<lparr>runs := [completed [] [] (Returns 0)],
                 trace := [Test_ssh, Test_ssh],
                 current_pod := Some (running_status example_cfg ''pod0'')\<rparr>)"
    by (simp add: world_eval)
  show ?thesis
    using h clear_remote_directory_refuses_outside_workspace [OF h, of example_cfg
        "idle_world\<lparr>probes := [True, True], runs := [completed [] [] (Returns 0)]\<rparr>"]
    by (simp add: e)
qed

text \<open>
  The claim C4 as written is about every path that \<open>/workspace\<close> is no prefix of. The path
  \<open>" /workspace/out"\<close> starts with a blank, so \<open>/workspace\<close> is no prefix of it; the guard
  strips the blank, accepts the path, and the command that empties the directory is run.
\<close>

theorem clear_remote_directory_accepts_padded_path:
  "\<not> startswith '' /workspace/out'' ''/workspace''
   \<and> clear_remote_directory example_cfg '' /workspace/out''
        (idle_world\<lparr>probes := [True, True], runs := [completed [] [] (Returns 0)]\<rparr>)
     = (True, idle_world\<lparr>trace := [Test_ssh, Test_ssh, Ssh_exec (clear_cmd ''/workspace/out'')],
                current_pod := Some (running_status example_cfg ''pod0'')\<rparr>)"
  by (simp add: clear_remote_directory_def world_eval strip_def isspace_def startswith_def)



section \<open>Artifact Transfer Pipeline: missing directory and archive cleanup\<close>

lemma missing_reply_has_no_OK:
  assumes r: "runs w1 = completed ''MISSING\<newline>'' [] (Returns 0) # rs"
  shows "\<exists>ok out err. fst (execute_ssh_command cfg c None None w1) = (ok, out, err)
            \<and> \<not> contains ''OK'' out"
  using r
  by (auto simp: execute_ssh_command_def run_session_def exit_status_of_def completed_def
        log_def Let_def startswith_def)

lemma download_stops_at_check:
  assumes e: "ensure_pod_running cfg False w = (True, w1)"
    and x: "execute_ssh_command cfg (check_cmd (replace_quote (strip remote_dir))) None None w1
            = ((ok, out, err), w2)"
    and m: "\<not> contains ''OK'' out"
  shows "download_and_extract_outputs cfg ts remote_dir local_base_dir prefix w
         = (Returns None, w2)"
  unfolding download_and_extract_outputs_def e
  apply (simp only: prod.case bool.case)
  apply (simp only: Let_def x prod.case)
  apply (simp only: m simp_thms if_True)
  done

text \<open>
  Claim C8. The remote directory does not exist: the existence check, which is the first
  command of the operation, is answered with \<open>MISSING\<close>. Then
  \<open>download_and_extract_outputs\<close> returns None without raising; after the readiness check,
  which only observes, the existence check is the one operation it performs when the
  worker is ready, and it performs none when the worker is not. So no archive is made on
  the worker and no local directory is created.
\<close>

theorem download_missing_remote_dir:
  assumes "runs w = completed ''MISSING\<newline>'' [] (Returns 0) # rs"
  shows "fst (download_and_extract_outputs cfg ts remote_dir local_base_dir prefix w)
           = Returns None
         \<and> trace (snd (download_and_extract_outputs cfg ts remote_dir local_base_dir prefix w))
           = trace (snd (ensure_pod_running cfg False w))
             @ (if fst (ensure_pod_running cfg False w)
                then [Ssh_exec (check_cmd (replace_quote (strip remote_dir)))] else [])
         \<and> (\<exists>evs. trace (snd (ensure_pod_running cfg False w)) = trace w @ evs
                \<and> list_all observation evs)"
proof -
  let ?c = "check_cmd (replace_quote (strip remote_dir))"
  obtain ready w1 where e: "ensure_pod_running cfg False w = (ready, w1)"
    by (cases "ensure_pod_running cfg False w")
  have r: "runs w1 = completed ''MISSING\<newline>'' [] (Returns 0) # rs"
    using runs_ensure_pod_running [of cfg w] e assms by simp
  obtain ok out err w2 where x: "execute_ssh_command cfg ?c None None w1 = ((ok, out, err), w2)"
    and m: "\<not> contains ''OK'' out"
    using missing_reply_has_no_OK [OF r, of cfg ?c]
    by (cases "execute_ssh_command cfg ?c None None w1") auto
  have t: "trace w2 = trace w1 @ [Ssh_exec ?c]"
    using trace_execute_ssh_command [of cfg ?c None None w1] x by simp
  have o: "\<exists>evs. trace (snd (ensure_pod_running cfg False w)) = trace w @ evs
              \<and> list_all observation evs"
    using continues_ensure_pod_running [of w cfg] by (auto simp: continues_def)
  show ?thesis
  proof (cases ready)
    case True
    then have "download_and_extract_outputs cfg ts remote_dir local_base_dir prefix w
               = (Returns None, w2)"
      using e x m by (intro download_stops_at_check) auto
    then show ?thesis using e True t o by simp
  next
    case False
    then have "download_and_extract_outputs cfg ts remote_dir local_base_dir prefix w
               = (Returns None, w1)"
      using e by (simp add: download_and_extract_outputs_def)
    then show ?thesis using e False o by simp
  qed
qed

theorem download_missing_remote_dir_witness:
  "runs (idle_world\<lparr>probes := [True, True], runs := [completed ''MISSING\<newline>'' [] (Returns 0)]\<rparr>)
     = completed ''MISSING\<newline>'' [] (Returns 0) # []
   \<and> fst (download_and_extract_outputs example_cfg ''20250101_120000'' ''/workspace/nowhere''
            ''data/output_images'' ''facial_outputs''
            (idle_world\<lparr>probes := [True, True],
               runs := [completed ''MISSING\<newline>'' [] (Returns 0)]\<rparr>)) = Returns None
   \<and> trace (snd (download_and_extract_outputs example_cfg ''20250101_120000''
            ''/workspace/nowhere'' ''data/output_images'' ''facial_outputs''
            (idle_world\<lparr>probes := [True, True],
               runs := [completed ''MISSING\<newline>'' [] (Returns 0)]\<rparr>)))
     = [Test_ssh, Test_ssh, Ssh_exec (check_cmd ''/workspace/nowhere'')]"
proof -
  let ?w = "idle_world\<lparr>probes := [True, True],
              runs := [completed ''MISSING\<newline>'' [] (Returns 0)]\<rparr>"
  have h: "runs ?w = completed ''MISSING\<newline>'' [] (Returns 0) # []" by simp
  have e: "ensure_pod_running example_cfg False ?w
           = (True, idle_world\<lparr>runs := [completed ''MISSING\<newline>'' [] (Returns 0)],
                trace := [Test_ssh, Test_ssh],
                current_pod := Some (running_status example_cfg ''pod0'')\<rparr>)"
    by (simp add: world_eval)
  have s: "replace_quote (strip ''/workspace/nowhere'') = ''/workspace/nowhere''"
    by (simp add: strip_def isspace_def replace_quote_def)
  show ?thesis
    using h download_missing_remote_dir [OF h, of example_cfg "''20250101_120000''"
        "''/workspace/nowhere''" "''data/output_images''" "''facial_outputs''"]
    by (simp add: e s)
qed

lemma strings_eval:
  "strip ''/workspace/data/outputs'' = ''/workspace/data/outputs''"
  "replace_quote ''/workspace/data/outputs'' = ''/workspace/data/outputs''"
  "contains ''OK'' ''OK\<newline>''"
  "strip ''/workspace/data\<newline>'' = ''/workspace/data''"
  "strip ''outputs\<newline>'' = ''outputs''"
  "first_line ''/workspace/data'' = ''/workspace/data''"
  "first_line ''outputs'' = ''outputs''"
  "path_name ''/workspace/facial_outputs_20250101_120000.tar.gz''
     = ''facial_outputs_20250101_120000.tar.gz''"
  by (simp_all add: strip_def isspace_def replace_quote_def startswith_def first_line_def
        is_linebreak_def path_name_def)

text \<open>
  Claim C2 does not hold of the code. On the download path the archive is made on the
  worker and the copy to the local machine fails: the function returns None, and the last
  operation is the failed copy, so the archive on the worker is never removed. On the
  upload path the archive reaches the worker and its extraction fails: the function
  returns False after that one command, in which the removal stands behind \<open>&&\<close> and so
  is not run, and no further command removes the archive.
\<close>

theorem transfer_failure_leaves_remote_archive:
  "download_and_extract_outputs example_cfg ''20250101_120000'' ''/workspace/data/outputs''
     ''data/output_images'' ''facial_outputs'' lost_download_world
   = (Returns None,
      idle_world\<lparr>trace :=
        [Test_ssh, Test_ssh,
         Ssh_exec (check_cmd ''/workspace/data/outputs''),
         Ssh_exec (parent_dir_cmd ''/workspace/data/outputs''),
         Ssh_exec (remote_name_cmd ''/workspace/data/outputs''),
         Ssh_exec (tar_cmd ''/workspace/data''
                     ''/workspace/facial_outputs_20250101_120000.tar.gz'' ''outputs''),
         Download_file ''/workspace/facial_outputs_20250101_120000.tar.gz''
           ''facial_outputs_20250101_120000.tar.gz''],
        current_pod := Some (running_status example_cfg ''pod0'')\<rparr>)
   \<and> upload_project_files example_cfg ''/tmp/project_ab12.tar.gz'' ''./'' failed_extract_world
   = (False,
      idle_world\<lparr>trace :=
        [Test_ssh, Test_ssh, Local_archive ''/tmp/project_ab12.tar.gz'',
         Upload_file ''/tmp/project_ab12.tar.gz'' ''/workspace/project_ab12.tar.gz'',
         Local_unlink ''/tmp/project_ab12.tar.gz'',
         Ssh_exec (''cd /workspace && tar -xzf '' @ sq @ ''/workspace/project_ab12.tar.gz'' @ sq
                   @ '' && rm -f '' @ sq @ ''/workspace/project_ab12.tar.gz'' @ sq)],
        current_pod := Some (running_status example_cfg ''pod0'')\<rparr>)"
proof (rule conjI)
  show "download_and_extract_outputs example_cfg ''20250101_120000'' ''/workspace/data/outputs''
     ''data/output_images'' ''facial_outputs'' lost_download_world
   = (Returns None,
      idle_world\<lparr>trace :=
        [Test_ssh, Test_ssh,
         Ssh_exec (check_cmd ''/workspace/data/outputs''),
         Ssh_exec (parent_dir_cmd ''/workspace/data/outputs''),
         Ssh_exec (remote_name_cmd ''/workspace/data/outputs''),
         Ssh_exec (tar_cmd ''/workspace/data''
                     ''/workspace/facial_outputs_20250101_120000.tar.gz'' ''outputs''),
         Download_file ''/workspace/facial_outputs_20250101_120000.tar.gz''
           ''facial_outputs_20250101_120000.tar.gz''],
        current_pod := Some (running_status example_cfg ''pod0'')\<rparr>)"
    by (simp add: download_and_extract_outputs_def lost_download_world_def strings_eval
          world_eval del: contains.simps)
  show "upload_project_files example_cfg ''/tmp/project_ab12.tar.gz'' ''./'' failed_extract_world
   = (False,
      idle_world\<lparr>trace :=
        [Test_ssh, Test_ssh, Local_archive ''/tmp/project_ab12.tar.gz'',
         Upload_file ''/tmp/project_ab12.tar.gz'' ''/workspace/project_ab12.tar.gz'',
         Local_unlink ''/tmp/project_ab12.tar.gz'',
         Ssh_exec (''cd /workspace && tar -xzf '' @ sq @ ''/workspace/project_ab12.tar.gz'' @ sq
                   @ '' && rm -f '' @ sq @ ''/workspace/project_ab12.tar.gz'' @ sq)],
        current_pod := Some (running_status example_cfg ''pod0'')\<rparr>)"
    by (simp add: upload_project_files_def failed_extract_world_def path_name_def world_eval)
qed

text \<open>
  Read off the two runs: both operations report failure, and the command that removes the
  archive of the download is not among the operations of that run.
\<close>

theorem transfer_failure_leaves_remote_archive_witness:
  "fst (download_and_extract_outputs example_cfg ''20250101_120000'' ''/workspace/data/outputs''
          ''data/output_images'' ''facial_outputs'' lost_download_world) = Returns None
   \<and> Ssh_exec ''rm -f /workspace/facial_outputs_20250101_120000.tar.gz''
       \<notin> set (trace (snd (download_and_extract_outputs example_cfg ''20250101_120000''
                 ''/workspace/data/outputs'' ''data/output_images'' ''facial_outputs''
                 lost_download_world)))
   \<and> fst (upload_project_files example_cfg ''/tmp/project_ab12.tar.gz'' ''./''
            failed_extract_world) = False"
  using transfer_failure_leaves_remote_archive
  by (simp add: check_cmd_def parent_dir_cmd_def remote_name_cmd_def tar_cmd_def idle_world_def)

section \<open>Retention Manager: which batches go\<close>






text \<open>
  Claim C7 does not hold of the code. \<open>rmtree\<close> is called with \<open>ignore_errors=True\<close>, so
  it raises nothing and the counter goes up whether or not the directory went: with
  \<open>keep = 0\<close> and one batch that cannot be deleted, the call returns 1 and the batch is
  still in the listing.
\<close>

theorem prune_counts_failed_removal:
  "prune_local_batches stuck_fs ''out'' 0 = Inr (1, stuck_fs)
   \<and> stuck_fs ''out'' = Some (Dir_node [stuck_batch])
   \<and> \<not> removable stuck_batch"
  by (simp add: prune_local_batches_def stuck_fs_def stuck_batch_def is_batch_def
        startswith_def rmtree_def)

end
